theory Spec2Isabelle
  imports Main
begin

section \<open>The catalogue: tables, console and store\<close>

text \<open>
  The program \<^verbatim>\<open>shelf_track.py\<close> keeps two SQLite tables,
  \<^verbatim>\<open>book(id, title, authorID, qty)\<close> and \<^verbatim>\<open>author(id, name, country)\<close>, and drives them
  from a text menu. A row of a table is a record; a table is the list of its rows, in the
  order a \<^verbatim>\<open>SELECT\<close> without \<^verbatim>\<open>ORDER BY\<close> returns them. The quantity column can hold
  \<^verbatim>\<open>NULL\<close>, because \<^verbatim>\<open>get_valid_integer\<close> can return \<^verbatim>\<open>None\<close>.
\<close>

record book =
  b_id :: int
  b_title :: string
  b_authorID :: int
  b_qty :: "int option"

record author =
  a_id :: int
  a_name :: string
  a_country :: string

text \<open>
  The statements the program passes to \<^verbatim>\<open>execute_sqlite_query\<close>, each with its parameters
  in the order of the placeholders.
\<close>

datatype stmt =
    InsertAuthor int string string
  | InsertBook int string int "int option"
  | UpdateQty "int option" int
  | UpdateTitle string int
  | UpdateAuthorID int int
  | UpdateAuthorName string int
  | UpdateAuthorCountry string int
  | DeleteAuthor int
  | DeleteBook int

text \<open>
  Exceptions that leave a function of the program: the end of the input
  (\<^verbatim>\<open>input()\<close>), iterating, measuring or indexing the \<^verbatim>\<open>False\<close> that
  \<^verbatim>\<open>retrieve_sqlite_query\<close> returns on a store error, indexing an empty result, and an
  integer parameter outside SQLite's 64 bits.
\<close>

datatype error = EOFError | TypeError | IndexError | OverflowError

text \<open>
  What the program prints. A \<^verbatim>\<open>print\<close> of one line is the line itself, as the source
  writes it, with the interpolated values in place. The multi-line blocks are named:
  a menu by its lines, the card of a book by the six values it shows (id, title,
  author, author id, country, stock), the entry of the full listing by its five. The
  text of a caught store error depends on SQLite and is not modelled. Prompts of
  \<^verbatim>\<open>input()\<close> are not recorded.
\<close>

datatype msg =
    Line string
  | QueryFailed
  | Menu "string list"
  | BookCard int string string int string "int option"
  | BookListing int string string string "int option"

text \<open>
  The world a run acts on: the two tables, the lines still to be read from the keyboard,
  the schedule of store errors (one flag for each coming call of the store: \<open>True\<close> when
  that call raises \<^verbatim>\<open>sqlite3.Error\<close>; no error once the schedule is used up), what has
  been printed, and the statements passed to \<^verbatim>\<open>execute_sqlite_query\<close> so far, each with the
  boolean it returned.
\<close>

record world =
  book_tab :: "book list"
  author_tab :: "author list"
  stdin :: "string list"
  faults :: "bool list"
  stdout :: "msg list"
  calls :: "(stmt \<times> bool) list"

type_synonym 'a run = "(error + 'a) \<times> world"

definition py_print :: "msg \<Rightarrow> world \<Rightarrow> world" where
  "py_print m w = w\<lparr>stdout := stdout w @ [m]\<rparr>"

definition py_prints :: "msg list \<Rightarrow> world \<Rightarrow> world" where
  "py_prints ms w = w\<lparr>stdout := stdout w @ ms\<rparr>"

definition py_input :: "world \<Rightarrow> string run" where
  "py_input w = (case stdin w of [] \<Rightarrow> (Inl EOFError, w) | l # ls \<Rightarrow> (Inr l, w\<lparr>stdin := ls\<rparr>))"

definition next_fault :: "world \<Rightarrow> bool \<times> world" where
  "next_fault w = (case faults w of [] \<Rightarrow> (False, w) | f # fs \<Rightarrow> (f, w\<lparr>faults := fs\<rparr>))"

text \<open>Sequencing: an exception of the first part leaves the whole.\<close>

definition andthen :: "'a run \<Rightarrow> ('a \<Rightarrow> world \<Rightarrow> 'b run) \<Rightarrow> 'b run" where
  "andthen m f = (case m of (Inl e, w) \<Rightarrow> (Inl e, w) | (Inr x, w) \<Rightarrow> f x w)"

subsection \<open>Python's conversions\<close>

text \<open>
  \<^verbatim>\<open>int(s)\<close> on a line of ASCII text: blanks (space, tab, line feed, vertical tab, form
  feed, carriage return) around an optional sign and decimal digits, single underscores
  allowed between digits, at most 4300 digits; \<open>None\<close> stands for \<^verbatim>\<open>ValueError\<close>.
  \<^verbatim>\<open>str(n)\<close> is the decimal numeral, and \<^verbatim>\<open>s.lower()\<close> maps the capital letters.
\<close>

definition is_space :: "char \<Rightarrow> bool" where
  "is_space c = (of_char c \<in> {9, 10, 11, 12, 13, 32 :: nat})"

definition py_strip :: "string \<Rightarrow> string" where
  "py_strip s = rev (dropWhile is_space (rev (dropWhile is_space s)))"

definition digit_of :: "char \<Rightarrow> nat option" where
  "digit_of c = (if 48 \<le> (of_char c :: nat) \<and> (of_char c :: nat) \<le> 57
                 then Some (of_char c - 48) else None)"

fun py_digits :: "nat \<Rightarrow> string \<Rightarrow> nat option" where
  "py_digits acc [] = Some acc"
| "py_digits acc [c] = map_option (\<lambda>d. 10 * acc + d) (digit_of c)"
| "py_digits acc (c # c' # cs) =
     (if c = CHR ''_''
      then (case digit_of c' of None \<Rightarrow> None | Some d \<Rightarrow> py_digits (10 * acc + d) cs)
      else (case digit_of c of None \<Rightarrow> None | Some d \<Rightarrow> py_digits (10 * acc + d) (c' # cs)))"

definition py_numeral :: "string \<Rightarrow> nat option" where
  "py_numeral s =
     (if length (filter (\<lambda>c. digit_of c \<noteq> None) s) > 4300 then None
      else (case s of [] \<Rightarrow> None
            | c # cs \<Rightarrow> (case digit_of c of None \<Rightarrow> None | Some d \<Rightarrow> py_digits d cs)))"

definition py_int :: "string \<Rightarrow> int option" where
  "py_int s = (case py_strip s of [] \<Rightarrow> None
     | c # cs \<Rightarrow>
        if c = CHR ''-'' then map_option (\<lambda>n. - int n) (py_numeral cs)
        else if c = CHR ''+'' then map_option int (py_numeral cs)
        else map_option int (py_numeral (c # cs)))"

fun nat_digits :: "nat \<Rightarrow> string" where
  "nat_digits n = (if n < 10 then [char_of (48 + n)]
                   else nat_digits (n div 10) @ [char_of (48 + n mod 10)])"

declare nat_digits.simps [simp del]

definition py_str :: "int \<Rightarrow> string" where
  "py_str i = (if i < 0 then CHR ''-'' # nat_digits (nat (- i)) else nat_digits (nat i))"

definition py_lower :: "string \<Rightarrow> string" where
  "py_lower s = map (\<lambda>c. if 65 \<le> (of_char c :: nat) \<and> (of_char c :: nat) \<le> 90
                          then char_of (of_char c + 32 :: nat) else c) s"

text \<open>\<^verbatim>\<open>range(n)\<close>, as the list of its members.\<close>

definition py_range :: "nat \<Rightarrow> int list" where
  "py_range n = map int [0..<n]"

subsection \<open>The store: \<^verbatim>\<open>execute_sqlite_query\<close> and \<^verbatim>\<open>retrieve_sqlite_query\<close>\<close>

text \<open>
  What a statement does to the tables when SQLite runs it; \<open>None\<close> is the
  \<^verbatim>\<open>sqlite3.IntegrityError\<close> of an \<^verbatim>\<open>INSERT\<close> whose primary key is already in the table.
  An \<^verbatim>\<open>UPDATE\<close> or \<^verbatim>\<open>DELETE\<close> that matches no row succeeds and changes nothing. The schema
  declares no foreign key, so no statement is refused for the rows of the other table.
\<close>

fun apply_stmt :: "stmt \<Rightarrow> world \<Rightarrow> world option" where
  "apply_stmt (InsertAuthor i n c) w =
     (if i \<in> set (map a_id (author_tab w)) then None
      else Some (w\<lparr>author_tab := author_tab w @ [\<lparr>a_id = i, a_name = n, a_country = c\<rparr>]\<rparr>))"
| "apply_stmt (InsertBook i t a q) w =
     (if i \<in> set (map b_id (book_tab w)) then None
      else Some (w\<lparr>book_tab := book_tab w @ [\<lparr>b_id = i, b_title = t, b_authorID = a, b_qty = q\<rparr>]\<rparr>))"
| "apply_stmt (UpdateQty q i) w =
     Some (w\<lparr>book_tab := map (\<lambda>b. if b_id b = i then b\<lparr>b_qty := q\<rparr> else b) (book_tab w)\<rparr>)"
| "apply_stmt (UpdateTitle t i) w =
     Some (w\<lparr>book_tab := map (\<lambda>b. if b_id b = i then b\<lparr>b_title := t\<rparr> else b) (book_tab w)\<rparr>)"
| "apply_stmt (UpdateAuthorID a i) w =
     Some (w\<lparr>book_tab := map (\<lambda>b. if b_id b = i then b\<lparr>b_authorID := a\<rparr> else b) (book_tab w)\<rparr>)"
| "apply_stmt (UpdateAuthorName n i) w =
     Some (w\<lparr>author_tab := map (\<lambda>a. if a_id a = i then a\<lparr>a_name := n\<rparr> else a) (author_tab w)\<rparr>)"
| "apply_stmt (UpdateAuthorCountry c i) w =
     Some (w\<lparr>author_tab := map (\<lambda>a. if a_id a = i then a\<lparr>a_country := c\<rparr> else a) (author_tab w)\<rparr>)"
| "apply_stmt (DeleteAuthor i) w =
     Some (w\<lparr>author_tab := filter (\<lambda>a. a_id a \<noteq> i) (author_tab w)\<rparr>)"
| "apply_stmt (DeleteBook i) w =
     Some (w\<lparr>book_tab := filter (\<lambda>b. b_id b \<noteq> i) (book_tab w)\<rparr>)"

text \<open>The integer parameters of a statement; one outside 64 bits makes the binding raise
  \<^verbatim>\<open>OverflowError\<close>, which \<^verbatim>\<open>except sqlite3.Error\<close> does not catch.\<close>

fun int_params :: "stmt \<Rightarrow> int list" where
  "int_params (InsertAuthor i n c) = [i]"
| "int_params (InsertBook i t a q) = [i, a] @ (case q of None \<Rightarrow> [] | Some n \<Rightarrow> [n])"
| "int_params (UpdateQty q i) = (case q of None \<Rightarrow> [] | Some n \<Rightarrow> [n]) @ [i]"
| "int_params (UpdateTitle t i) = [i]"
| "int_params (UpdateAuthorID a i) = [a, i]"
| "int_params (UpdateAuthorName n i) = [i]"
| "int_params (UpdateAuthorCountry c i) = [i]"
| "int_params (DeleteAuthor i) = [i]"
| "int_params (DeleteBook i) = [i]"

definition fits_int64 :: "int \<Rightarrow> bool" where
  "fits_int64 i \<longleftrightarrow> - (2 ^ 63) \<le> i \<and> i < 2 ^ 63"

definition fits_sqlite :: "stmt \<Rightarrow> bool" where
  "fits_sqlite s = list_all fits_int64 (int_params s)"

definition execute_sqlite_query :: "stmt \<Rightarrow> world \<Rightarrow> bool run" where
  "execute_sqlite_query s w =
     (case next_fault w of (f, w1) \<Rightarrow>
        if f then (Inr False, py_print QueryFailed (w1\<lparr>calls := calls w1 @ [(s, False)]\<rparr>))
        else if \<not> fits_sqlite s then (Inl OverflowError, w1)
        else (case apply_stmt s w1 of
                None \<Rightarrow> (Inr False, py_print QueryFailed (w1\<lparr>calls := calls w1 @ [(s, False)]\<rparr>))
              | Some w2 \<Rightarrow> (Inr True, w2\<lparr>calls := calls w2 @ [(s, True)]\<rparr>)))"

text \<open>
  A query is given by the rows it selects from the tables and by the integers bound to its
  placeholders. \<open>None\<close> is the \<^verbatim>\<open>False\<close> that \<^verbatim>\<open>retrieve_sqlite_query\<close> returns on a store
  error; a bound integer outside 64 bits raises \<^verbatim>\<open>OverflowError\<close>, as in
  \<^verbatim>\<open>execute_sqlite_query\<close>.
\<close>

definition retrieve_sqlite_query :: "(world \<Rightarrow> 'r list) \<Rightarrow> int list \<Rightarrow> world \<Rightarrow> 'r list option run" where
  "retrieve_sqlite_query q parameters w =
     (case next_fault w of (f, w1) \<Rightarrow>
        if f then (Inr None, py_print QueryFailed w1)
        else if \<not> list_all fits_int64 parameters then (Inl OverflowError, w1)
        else (Inr (Some (q w1)), w1))"

text \<open>The queries of the program. The inner join pairs each book with the authors whose
  id is the book's \<^verbatim>\<open>authorID\<close>.\<close>

definition joined :: "world \<Rightarrow> (book \<times> author) list" where
  "joined w = concat (map (\<lambda>b. map (\<lambda>a. (b, a)) (filter (\<lambda>a. b_authorID b = a_id a) (author_tab w)))
                          (book_tab w))"

type_synonym title_row = "string \<times> string \<times> string \<times> int \<times> int \<times> int option"
type_synonym book_row = "int \<times> string \<times> int \<times> string \<times> string \<times> int option"

definition select_titles_joined :: "world \<Rightarrow> title_row list" where
  "select_titles_joined w =
     map (\<lambda>(b, a). (b_title b, a_name a, a_country a, a_id a, b_id b, b_qty b)) (joined w)"

definition select_book_joined :: "int \<Rightarrow> world \<Rightarrow> book_row list" where
  "select_book_joined i w =
     map (\<lambda>(b, a). (b_id b, b_title b, a_id a, a_name a, a_country a, b_qty b))
         (filter (\<lambda>(b, a). b_id b = i) (joined w))"

definition select_listing_joined :: "world \<Rightarrow> (int \<times> string \<times> string \<times> string \<times> int option) list" where
  "select_listing_joined w =
     map (\<lambda>(b, a). (b_id b, b_title b, a_name a, a_country a, b_qty b)) (joined w)"

definition select_authors :: "world \<Rightarrow> (int \<times> string \<times> string) list" where
  "select_authors w = map (\<lambda>a. (a_id a, a_name a, a_country a)) (author_tab w)"

definition select_book_by_id :: "int \<Rightarrow> world \<Rightarrow> book list" where
  "select_book_by_id i w = filter (\<lambda>b. b_id b = i) (book_tab w)"

definition select_author_by_id :: "int \<Rightarrow> world \<Rightarrow> author list" where
  "select_author_by_id i w = filter (\<lambda>a. a_id a = i) (author_tab w)"

definition select_ids_by_author :: "int \<Rightarrow> world \<Rightarrow> int list" where
  "select_ids_by_author a w = map b_id (filter (\<lambda>b. b_authorID b = a) (book_tab w))"

definition select_books_by_author :: "int \<Rightarrow> world \<Rightarrow> (int \<times> string) list" where
  "select_books_by_author a w =
     map (\<lambda>b. (b_id b, b_title b)) (filter (\<lambda>b. b_authorID b = a) (book_tab w))"

text \<open>The tables as \<^verbatim>\<open>init_book_database\<close> and \<^verbatim>\<open>init_author_database\<close> fill them on the
  first start.\<close>

definition initial_books :: "book list" where
  "initial_books =
     [\<lparr>b_id = 3001, b_title = ''A Tale of Two Cities'', b_authorID = 1290, b_qty = Some 30\<rparr>,
      \<lparr>b_id = 3002, b_title = ''Harry Potter and the Philosopher's Stone'', b_authorID = 8937,
        b_qty = Some 40\<rparr>,
      \<lparr>b_id = 3003, b_title = ''TheLion, the Witch and the Wardrobe'', b_authorID = 2356,
        b_qty = Some 25\<rparr>,
      \<lparr>b_id = 3004, b_title = ''The Lord of the Rings'', b_authorID = 6380, b_qty = Some 37\<rparr>,
      \<lparr>b_id = 3005, b_title = ''Alice's Adventures in Wonderland'', b_authorID = 5620,
        b_qty = Some 12\<rparr>]"

definition initial_authors :: "author list" where
  "initial_authors =
     [\<lparr>a_id = 1290, a_name = ''Charles Dickens'', a_country = ''England''\<rparr>,
      \<lparr>a_id = 8937, a_name = ''J.K. Rowling'', a_country = ''England''\<rparr>,
      \<lparr>a_id = 2356, a_name = ''C.S. Lewis'', a_country = ''Ireland''\<rparr>,
      \<lparr>a_id = 6380, a_name = ''J.R.R Tolkien'', a_country = ''South Africa''\<rparr>,
      \<lparr>a_id = 5620, a_name = ''Lewis Carroll'', a_country = ''England''\<rparr>]"

definition session :: "book list \<Rightarrow> author list \<Rightarrow> string list \<Rightarrow> bool list \<Rightarrow> world" where
  "session bs as keyboard schedule =
     \<lparr>book_tab = bs, author_tab = as, stdin = keyboard, faults = schedule, stdout = [],
      calls = []\<rparr>"

section \<open>The prompts\<close>

text \<open>
  Each prompt reads lines until one is valid and prints its complaint for every other
  line, as the recursive functions of the source do; the end of the input raises
  \<^verbatim>\<open>EOFError\<close>. The text of the prompt itself is not a parameter here, and the depth of
  Python's call stack is not modelled: a prompt here goes on after any number of refused
  lines, where the interpreter raises \<^verbatim>\<open>RecursionError\<close> after about a thousand.
\<close>

function get_valid_option_input :: "int list \<Rightarrow> world \<Rightarrow> int run" where
  "get_valid_option_input valid_range w =
     (case py_input w of
        (Inl e, w1) \<Rightarrow> (Inl e, w1)
      | (Inr l, w1) \<Rightarrow>
          (case py_int l of
             None \<Rightarrow>
               get_valid_option_input valid_range
                 (py_print (Line ''Invalid selection, please try again'') w1)
           | Some int_selected \<Rightarrow>
               if int_selected \<in> set valid_range then (Inr int_selected, w1)
               else get_valid_option_input valid_range
                      (py_print (Line ''Invalid selection, please try again'') w1)))"
  by pat_completeness auto
termination
  by (relation "measure (\<lambda>(r, w). length (stdin w))")
     (auto simp: py_input_def py_print_def split: list.splits)

declare get_valid_option_input.simps [simp del]

function get_yes_no :: "world \<Rightarrow> bool run" where
  "get_yes_no w =
     (case py_input w of
        (Inl e, w1) \<Rightarrow> (Inl e, w1)
      | (Inr l, w1) \<Rightarrow>
          (let user_input = py_lower l in
           if user_input = ''y'' then (Inr True, w1)
           else if user_input = [] then (Inr True, w1)
           else if user_input = ''n'' then (Inr False, w1)
           else get_yes_no (py_print (Line ''Invalid selection, please try again'') w1)))"
  by pat_completeness auto
termination
  by (relation "measure (\<lambda>w. length (stdin w))")
     (auto simp: py_input_def py_print_def split: list.splits)

declare get_yes_no.simps [simp del]

function get_valid_string :: "world \<Rightarrow> string run" where
  "get_valid_string w =
     (case py_input w of
        (Inl e, w1) \<Rightarrow> (Inl e, w1)
      | (Inr user_input, w1) \<Rightarrow>
          if user_input = [] then
            get_valid_string (py_print (Line ''Input must contain characters, please try again'') w1)
          else (Inr user_input, w1))"
  by pat_completeness auto
termination
  by (relation "measure (\<lambda>w. length (stdin w))")
     (auto simp: py_input_def py_print_def split: list.splits)

declare get_valid_string.simps [simp del]

text \<open>
  \<^verbatim>\<open>get_valid_integer\<close> returns the integer of a first line that is one. After any other
  first line it calls itself and drops what the call returns, so its own result is
  \<^verbatim>\<open>None\<close>.
\<close>

function get_valid_integer :: "world \<Rightarrow> int option run" where
  "get_valid_integer w =
     (case py_input w of
        (Inl e, w1) \<Rightarrow> (Inl e, w1)
      | (Inr l, w1) \<Rightarrow>
          (case py_int l of
             Some user_input \<Rightarrow> (Inr (Some user_input), w1)
           | None \<Rightarrow>
               (case get_valid_integer (py_print (Line ''Invalid input, please try again'') w1) of
                  (Inl e, w2) \<Rightarrow> (Inl e, w2)
                | (Inr dropped, w2) \<Rightarrow> (Inr None, w2))))"
  by pat_completeness auto
termination
  by (relation "measure (\<lambda>w. length (stdin w))")
     (auto simp: py_input_def py_print_def split: list.splits)

declare get_valid_integer.simps [simp del]

text \<open>\<^verbatim>\<open>check_id_exists\<close>: \<open>None\<close> is the \<^verbatim>\<open>None\<close> it returns for a table it does not know.
  A failed query (\<^verbatim>\<open>False\<close>) counts as no matching row.\<close>

definition check_id_exists :: "string \<Rightarrow> int \<Rightarrow> world \<Rightarrow> bool option run" where
  "check_id_exists table i w =
     (if table = ''book'' then
        andthen (retrieve_sqlite_query (select_book_by_id i) [i] w) (\<lambda>matching_id w.
          case matching_id of
            None \<Rightarrow> (Inr (Some False), w)
          | Some rows \<Rightarrow> (Inr (Some (rows \<noteq> [])), w))
      else if table = ''author'' then
        andthen (retrieve_sqlite_query (select_author_by_id i) [i] w) (\<lambda>matching_id w.
          case matching_id of
            None \<Rightarrow> (Inr (Some False), w)
          | Some rows \<Rightarrow> (Inr (Some (rows \<noteq> [])), w))
      else (Inr None, py_print (Line ''Error: Table does not exist'') w))"

lemma stdin_check_id_exists: "stdin (snd (check_id_exists table i w)) = stdin w"
  by (simp add: check_id_exists_def retrieve_sqlite_query_def next_fault_def py_print_def
      andthen_def split: list.splits)

lemma stdin_after_check: "(x, w2) = check_id_exists table i w1 \<Longrightarrow> stdin w2 = stdin w1"
  by (metis stdin_check_id_exists snd_conv)

function get_valid_id :: "string \<Rightarrow> world \<Rightarrow> int run" where
  "get_valid_id table w =
     (case py_input w of
        (Inl e, w1) \<Rightarrow> (Inl e, w1)
      | (Inr l, w1) \<Rightarrow>
          (case py_int l of
             None \<Rightarrow>
               get_valid_id table (py_print (Line ''Invalid input, please input a four digit number'') w1)
           | Some new_id \<Rightarrow>
               if length (py_str new_id) \<noteq> 4 then
                 get_valid_id table
                   (py_print (Line ''Invalid input, please input a four digit number'') w1)
               else
                 (case check_id_exists table new_id w1 of
                    (Inl e, w2) \<Rightarrow> (Inl e, w2)
                  | (Inr id_exists, w2) \<Rightarrow>
                      if id_exists = Some True then
                        get_valid_id table
                          (py_print (Line ''id number already exists, please input a unique id'') w2)
                      else (Inr new_id, w2))))"
  by pat_completeness auto
termination
  by (relation "measure (\<lambda>(t, w). length (stdin w))")
     (auto simp: py_input_def py_print_def split: list.splits dest: stdin_after_check)

declare get_valid_id.simps [simp del]

function get_existing_id :: "string \<Rightarrow> world \<Rightarrow> int run" where
  "get_existing_id table w =
     (case py_input w of
        (Inl e, w1) \<Rightarrow> (Inl e, w1)
      | (Inr l, w1) \<Rightarrow>
          (case py_int l of
             None \<Rightarrow>
               get_existing_id table
                 (py_print (Line ''Invalid input, please input a four digit number'') w1)
           | Some new_id \<Rightarrow>
               if length (py_str new_id) \<noteq> 4 then
                 get_existing_id table
                   (py_print (Line ''Invalid input, please input a four digit number'') w1)
               else
                 (case check_id_exists table new_id w1 of
                    (Inl e, w2) \<Rightarrow> (Inl e, w2)
                  | (Inr id_exists, w2) \<Rightarrow>
                      if id_exists = Some True then (Inr new_id, w2)
                      else
                        get_existing_id table
                          (py_print (Line (''ID does not match any existing '' @ table
                              @ '' IDs, please enter an existing ID'')) w2))))"
  by pat_completeness auto
termination
  by (relation "measure (\<lambda>(t, w). length (stdin w))")
     (auto simp: py_input_def py_print_def split: list.splits dest: stdin_after_check)

declare get_existing_id.simps [simp del]

section \<open>The duplicate detector\<close>

text \<open>
  \<^verbatim>\<open>fuzzy_match.extract\<close> belongs to the library \<^verbatim>\<open>thefuzz\<close>, which the program imports and
  the repository does not contain. The program calls it with a query and a list of
  choices only, so with the library's defaults: every choice is scored against the query,
  and the five best pairs of a choice and its score are returned, best first, choices of
  equal score in the order of the list (\<^verbatim>\<open>limit=5\<close>). The score itself, the library's
  weighted ratio of the two processed strings, is a parameter of every function that
  reaches it: it takes the query and the choice to a number from 0 to 100.
\<close>

type_synonym scorer = "string \<Rightarrow> string \<Rightarrow> int"

definition fuzzy_match_extract :: "scorer \<Rightarrow> string \<Rightarrow> string list \<Rightarrow> (string \<times> int) list" where
  "fuzzy_match_extract score query choices =
     take 5 (sort_key (\<lambda>score_tuple. - snd score_tuple)
                      (map (\<lambda>choice. (choice, score query choice)) choices))"

definition retrieve_similar_titles :: "scorer \<Rightarrow> string \<Rightarrow> string \<Rightarrow> world \<Rightarrow> title_row list run" where
  "retrieve_similar_titles score title excluded_title w =
     andthen (retrieve_sqlite_query select_titles_joined [] w) (\<lambda>book_data w.
       case book_data of
         None \<Rightarrow> (Inl TypeError, w)
       | Some book_data \<Rightarrow>
           (let book_titles = map fst (filter (\<lambda>book. fst book \<noteq> excluded_title) book_data);
                title_similarity_scores = fuzzy_match_extract score title book_titles;
                similar_book_data =
                  concat (map (\<lambda>score_tuple. filter (\<lambda>book. fst book = fst score_tuple) book_data)
                              (filter (\<lambda>score_tuple. snd score_tuple \<ge> 90)
                                      title_similarity_scores))
            in (Inr similar_book_data, w)))"

definition retrieve_similar_authors :: "scorer \<Rightarrow> string \<Rightarrow> world \<Rightarrow> (int \<times> string \<times> string) list run" where
  "retrieve_similar_authors score new_author_name w =
     andthen (retrieve_sqlite_query select_authors [] w) (\<lambda>author_data w.
       case author_data of
         None \<Rightarrow> (Inl TypeError, w)
       | Some author_data \<Rightarrow>
           (let author_names = map (\<lambda>author. fst (snd author)) author_data;
                author_similarity_scores = fuzzy_match_extract score new_author_name author_names;
                similar_author_data =
                  concat (map (\<lambda>score_tuple.
                                 filter (\<lambda>author. fst (snd author) = fst score_tuple) author_data)
                              (filter (\<lambda>score_tuple. snd score_tuple \<ge> 75)
                                      author_similarity_scores))
            in (Inr similar_author_data, w)))"

section \<open>Adding authors and books\<close>

text \<open>Indexing a list the way Python does; \<open>None\<close> is \<^verbatim>\<open>IndexError\<close>.\<close>

definition py_index :: "'a list \<Rightarrow> int \<Rightarrow> 'a option" where
  "py_index xs i =
     (if 0 \<le> i \<and> i < int (length xs) then Some (xs ! nat i)
      else if i < 0 \<and> - int (length xs) \<le> i then Some (xs ! nat (int (length xs) + i))
      else None)"

text \<open>The lines of \<^verbatim>\<open>add_author\<close> after its \<^verbatim>\<open>if similar_authors\<close> block: the author is
  created. \<open>None\<close> is the \<^verbatim>\<open>None\<close> returned when the insert failed.\<close>

definition create_author :: "string \<Rightarrow> world \<Rightarrow> int option run" where
  "create_author new_author_name w =
     andthen (get_valid_string w) (\<lambda>new_author_country w.
     andthen (get_valid_id ''author'' w) (\<lambda>new_author_id w.
     andthen (execute_sqlite_query (InsertAuthor new_author_id new_author_name new_author_country) w)
       (\<lambda>author_created w.
          if author_created then (Inr (Some new_author_id), w) else (Inr None, w))))"

definition add_author :: "scorer \<Rightarrow> world \<Rightarrow> int option run" where
  "add_author score w =
     andthen (get_valid_string w) (\<lambda>new_author_name w.
     andthen (retrieve_similar_authors score new_author_name w) (\<lambda>similar_authors w.
       if similar_authors \<noteq> [] then
         andthen (get_yes_no
                    (py_prints
                       (Line ''Similar Authors found in database''
                        # map (\<lambda>(index, author).
                                 Line (''Number: '' @ py_str (int index) @ '' Name: ''
                                       @ fst (snd author) @ ''. Country: '' @ snd (snd author)))
                              (zip [0..<length similar_authors] similar_authors))
                       w))
           (\<lambda>use_existing_author w.
              if use_existing_author then
                andthen (get_valid_option_input (py_range (length similar_authors)) w)
                  (\<lambda>target_author_index w.
                     case py_index similar_authors target_author_index of
                       None \<Rightarrow> (Inl IndexError, w)
                     | Some chosen \<Rightarrow> (Inr (Some (fst chosen)), w))
              else create_author new_author_name w)
       else create_author new_author_name w))"

text \<open>The lines of \<^verbatim>\<open>add_book\<close> from \<^verbatim>\<open>get_valid_id("book")\<close> on.\<close>

definition insert_new_book :: "scorer \<Rightarrow> string \<Rightarrow> world \<Rightarrow> unit run" where
  "insert_new_book score new_title w =
     andthen (get_valid_id ''book'' w) (\<lambda>new_book_id w.
     andthen (add_author score w) (\<lambda>author_id w.
       case author_id of
         None \<Rightarrow> (Inr (), py_print (Line ''Error generating new Author, add book aborted'') w)
       | Some author_id \<Rightarrow>
           andthen (get_valid_integer w) (\<lambda>new_book_quantity w.
           andthen (execute_sqlite_query
                      (InsertBook new_book_id new_title author_id new_book_quantity) w)
             (\<lambda>book_added w.
                if book_added then
                  (Inr (), py_print (Line (''New Book '' @ new_title
                                           @ '' added to database successfully'')) w)
                else
                  (Inr (), py_print (Line (''Error adding new book '' @ new_title
                                           @ '' to database'')) w)))))"

definition add_book :: "scorer \<Rightarrow> world \<Rightarrow> unit run" where
  "add_book score w =
     andthen (get_valid_string w) (\<lambda>new_title w.
     andthen (retrieve_similar_titles score new_title [] w) (\<lambda>similar_titles w.
       if similar_titles \<noteq> [] then
         andthen (get_yes_no
                    (py_prints
                       (Line ''Book may already exist in database as: ''
                        # map (\<lambda>entry. Line (''Title: '' @ fst entry @ '', Author: ''
                                             @ fst (snd entry) @ '', Author Country: ''
                                             @ fst (snd (snd entry))))
                              similar_titles)
                       w))
           (\<lambda>continue_adding w.
              if \<not> continue_adding then (Inr (), py_print (Line ''Add Book aborted'') w)
              else insert_new_book score new_title w)
       else insert_new_book score new_title w))"

definition view_all_books :: "world \<Rightarrow> unit run" where
  "view_all_books w =
     andthen (retrieve_sqlite_query select_listing_joined [] w) (\<lambda>book_data w.
       case book_data of
         None \<Rightarrow> (Inl TypeError, w)
       | Some book_data \<Rightarrow>
           (Inr (), py_prints (map (\<lambda>(i, t, n, c, q). BookListing i t n c q) book_data) w))"

section \<open>The referential integrity guard\<close>

definition update_creates_orphan :: "int \<Rightarrow> world \<Rightarrow> bool run" where
  "update_creates_orphan author_id w =
     andthen (retrieve_sqlite_query (select_ids_by_author author_id) [author_id] w)
       (\<lambda>books_by_author w.
          case books_by_author of
            None \<Rightarrow> (Inl TypeError, w)
          | Some books_by_author \<Rightarrow>
              if length books_by_author < 2 then (Inr True, w) else (Inr False, w))"

definition get_affected_books :: "int \<Rightarrow> world \<Rightarrow> (int \<times> string) list option run" where
  "get_affected_books author_id w =
     retrieve_sqlite_query (select_books_by_author author_id) [author_id] w"

section \<open>Updating a book\<close>

text \<open>The values \<^verbatim>\<open>update_quantity\<close> can return, and which of them an \<^verbatim>\<open>if\<close> takes for true.\<close>

datatype pyval = PyInt int | PyBool bool | PyNone

fun truthy :: "pyval \<Rightarrow> bool" where
  "truthy (PyInt n) = (n \<noteq> 0)"
| "truthy (PyBool b) = b"
| "truthy PyNone = False"

fun py_repr :: "pyval \<Rightarrow> string" where
  "py_repr (PyInt n) = py_str n"
| "py_repr (PyBool b) = (if b then ''True'' else ''False'')"
| "py_repr PyNone = ''None''"

definition py_opt :: "int option \<Rightarrow> pyval" where
  "py_opt q = (case q of None \<Rightarrow> PyNone | Some n \<Rightarrow> PyInt n)"

definition update_quantity :: "int \<Rightarrow> int option \<Rightarrow> world \<Rightarrow> pyval run" where
  "update_quantity book_id current_quant w =
     andthen (get_valid_integer
                (py_print (Line (''Current stock is: '' @ py_repr (py_opt current_quant))) w))
       (\<lambda>new_quant w.
     andthen (execute_sqlite_query (UpdateQty new_quant book_id) w) (\<lambda>quant_updated w.
       if quant_updated then (Inr (py_opt new_quant), w) else (Inr (PyBool False), w)))"

definition update_title :: "scorer \<Rightarrow> int \<Rightarrow> string \<Rightarrow> world \<Rightarrow> unit run" where
  "update_title score book_id current_title w =
     andthen (get_valid_string (py_print (Line (''Current title is: '' @ current_title)) w))
       (\<lambda>new_title w.
     andthen (retrieve_similar_titles score new_title current_title w) (\<lambda>similar_titles w.
       if similar_titles \<noteq> [] then
         andthen (get_yes_no
                    (py_prints
                       (Line ''Book title may already exist in database as:''
                        # map (\<lambda>entry. Line (''Title: '' @ fst entry @ '', Author: ''
                                             @ fst (snd entry) @ '', Author Country: ''
                                             @ fst (snd (snd entry))))
                              similar_titles
                        @ [Line ''To avoid duplication of books consider deleting the current entry rather than changing title''])
                       w))
           (\<lambda>continue_editing w.
              if continue_editing then
                andthen (execute_sqlite_query (UpdateTitle new_title book_id)
                           (py_print (Line (''Updating '' @ current_title @ '' to '' @ new_title)) w))
                  (\<lambda>title_updated w.
                     if title_updated then
                       (Inr (), py_print (Line (''Book: '' @ current_title @ '' renamed to ''
                                                @ new_title @ '' successfully'')) w)
                     else
                       (Inr (), py_print (Line (''Error updating title on Book '' @ current_title
                                                @ '', Please contact system admin'')) w))
              else (Inr (), w))
       else (Inr (), w)))"

text \<open>
  The statements both branches of \<^verbatim>\<open>update_author_id\<close> end with: the book is given its new
  author and, when that succeeded and the orphan check had said so, the old author is
  deleted.
\<close>

definition change_author_id :: "int \<Rightarrow> int \<Rightarrow> string \<Rightarrow> string \<Rightarrow> bool \<Rightarrow> int \<Rightarrow> world \<Rightarrow> unit run" where
  "change_author_id book_id current_auth_id current_auth_name current_auth_country orphan new_id w =
     andthen (execute_sqlite_query (UpdateAuthorID new_id book_id) w) (\<lambda>book_edited w.
       if book_edited then
         if orphan then
           andthen (execute_sqlite_query (DeleteAuthor current_auth_id) w) (\<lambda>orphan_removed w.
             if orphan_removed then
               (Inr (), py_prints
                          [Line (''Orphan Author '' @ current_auth_name @ '' from ''
                                 @ current_auth_country @ '' removed from database''),
                           Line ''Author ID changed successfully''] w)
             else
               (Inr (), py_prints
                          [Line ''Removal of Orphan entry unsuccessful, Please contact system administrator'',
                           Line ''Author ID changed successfully''] w))
         else (Inr (), py_print (Line ''Author ID changed successfully'') w)
       else
         (Inr (), py_print (Line ''Error Editing Author ID, please contact system Administrator'') w))"

text \<open>The lines of the second branch after its confirmation.\<close>

definition assign_new_author :: "scorer \<Rightarrow> int \<Rightarrow> int \<Rightarrow> string \<Rightarrow> string \<Rightarrow> bool \<Rightarrow> world \<Rightarrow> unit run" where
  "assign_new_author score book_id current_auth_id current_auth_name current_auth_country orphan w =
     andthen (add_author score (py_print (Line ''-Please provide author details-'') w))
       (\<lambda>new_id w.
          case new_id of
            None \<Rightarrow>
              (Inr (), py_print
                         (Line ''Error generating new author, please contact system Administrator'') w)
          | Some new_id \<Rightarrow>
              change_author_id book_id current_auth_id current_auth_name current_auth_country
                orphan new_id w)"

definition update_author_id :: "scorer \<Rightarrow> int \<Rightarrow> int \<Rightarrow> string \<Rightarrow> string \<Rightarrow> world \<Rightarrow> unit run" where
  "update_author_id score book_id current_auth_id current_auth_name current_auth_country w =
     andthen (get_valid_option_input (py_range 3)
                (py_print (Menu [''--Options--'', ''1. Assign book to existing author'',
                                 ''2. Assign book to new author'', ''0. Return to main menu'']) w))
       (\<lambda>option_selection w.
          if option_selection = 1 then
            andthen (get_existing_id ''author''
                       (py_print (Line ''--Assigning book to existing Author--'') w))
              (\<lambda>new_id w.
            andthen (update_creates_orphan current_auth_id w) (\<lambda>orphan w.
              if orphan then
                andthen (get_yes_no
                           (py_print
                              (Line (''Changing the current book author id will result in the deletion of Author:''
                                     @ current_auth_name @ '' from '' @ current_auth_country)) w))
                  (\<lambda>continue_editing w.
                     if \<not> continue_editing then
                       (Inr (), py_print (Line ''Author ID update aborted, returning to main menu'') w)
                     else
                       change_author_id book_id current_auth_id current_auth_name
                         current_auth_country orphan new_id w)
              else
                change_author_id book_id current_auth_id current_auth_name current_auth_country
                  orphan new_id w))
          else if option_selection = 2 then
            andthen (update_creates_orphan current_auth_id
                       (py_print (Line ''--Assigning book to new author--'') w))
              (\<lambda>orphan w.
                 if orphan then
                   andthen (get_yes_no
                              (py_print
                                 (Line (''Changing the current book author id will result in the deletion of Author:''
                                        @ current_auth_name @ '' from '' @ current_auth_country)) w))
                     (\<lambda>continue_editing w.
                        if \<not> continue_editing then
                          (Inr (), py_print
                                     (Line ''Author ID update aborted, returning to main menu'') w)
                        else
                          assign_new_author score book_id current_auth_id current_auth_name
                            current_auth_country orphan w)
                 else
                   assign_new_author score book_id current_auth_id current_auth_name
                     current_auth_country orphan w)
          else if option_selection = 0 then
            (Inr (), py_print (Line ''Author ID update aborted, returning to main menu'') w)
          else (Inr (), w))"

definition update_author_name :: "int \<Rightarrow> string \<Rightarrow> world \<Rightarrow> unit run" where
  "update_author_name author_id current_name w =
     andthen (get_affected_books author_id w) (\<lambda>affected_books w1.
       case affected_books of
         None \<Rightarrow>
          (Inl TypeError,
           py_print (Line ''Modifying this author name will affect the following books:'') w1)
       | Some affected_books \<Rightarrow>
          andthen (get_yes_no
                     (py_prints
                        (Line ''Modifying this author name will affect the following books:''
                         # map (\<lambda>book. Line (''ID: '' @ py_str (fst book) @ '', Title: '' @ snd book))
                               affected_books)
                        w1))
            (\<lambda>continue_editing w.
               if \<not> continue_editing then
                 (Inr (), py_print (Line ''Editing author name Aborted, returning to main menu'') w)
               else
                 andthen (get_valid_string w) (\<lambda>new_author_name w.
                 andthen (execute_sqlite_query (UpdateAuthorName new_author_name author_id) w)
                   (\<lambda>author_name_edited w.
                      if author_name_edited then
                        (Inr (), py_print (Line (''Author name changed from '' @ current_name
                                                 @ '' to '' @ new_author_name)) w)
                      else
                        (Inr (), py_print (Line (''Error changing author name from '' @ current_name
                                                 @ '' to '' @ new_author_name
                                                 @ '', please contact system Admin'')) w)))))"

definition update_author_country :: "int \<Rightarrow> string \<Rightarrow> world \<Rightarrow> unit run" where
  "update_author_country author_id current_country w =
     andthen (get_affected_books author_id w) (\<lambda>affected_books w1.
       case affected_books of
         None \<Rightarrow>
          (Inl TypeError,
           py_print (Line ''Modifying this author name will affect the following books:'') w1)
       | Some affected_books \<Rightarrow>
          andthen (get_yes_no
                     (py_prints
                        (Line ''Modifying this author name will affect the following books:''
                         # map (\<lambda>book. Line (''ID: '' @ py_str (fst book) @ '', Title: '' @ snd book))
                               affected_books)
                        w1))
            (\<lambda>continue_editing w.
               if \<not> continue_editing then
                 (Inr (), py_print (Line ''Editing author country Aborted, returning to main menu'') w)
               else
                 andthen (get_valid_string w) (\<lambda>new_country w.
                 andthen (execute_sqlite_query (UpdateAuthorCountry new_country author_id) w)
                   (\<lambda>country_edited w.
                      if country_edited then
                        (Inr (), py_print (Line (''Author country changed from '' @ current_country
                                                 @ '' to '' @ new_country)) w)
                      else
                        (Inr (), py_print (Line (''Error changing author name from '' @ current_country
                                                 @ '' to '' @ new_country
                                                 @ '', please contact system Admin'')) w)))))"

text \<open>\<^verbatim>\<open>rows[0]\<close> of what \<^verbatim>\<open>retrieve_sqlite_query\<close> returned: \<^verbatim>\<open>False[0]\<close> is a
  \<^verbatim>\<open>TypeError\<close>, \<^verbatim>\<open>[][0]\<close> an \<^verbatim>\<open>IndexError\<close>.\<close>

definition first_row :: "'r list option run \<Rightarrow> 'r run" where
  "first_row res =
     andthen res (\<lambda>rows w.
       case rows of
         None \<Rightarrow> (Inl TypeError, w)
       | Some [] \<Rightarrow> (Inl IndexError, w)
       | Some (r # rs) \<Rightarrow> (Inr r, w))"

definition update_book :: "scorer \<Rightarrow> world \<Rightarrow> unit run" where
  "update_book score w =
     andthen (get_existing_id ''book'' w) (\<lambda>target_id w.
     andthen (first_row (retrieve_sqlite_query (select_book_joined target_id) [target_id] w))
       (\<lambda>(book_id, book_title, author_id, author_name, author_country, current_stock) w.
     andthen (get_valid_option_input (py_range 6)
                (py_prints
                   [Line ''Selected Book:'',
                    BookCard book_id book_title author_name author_id author_country current_stock,
                    Menu [''--Options--'', ''1. Update Stock Quantity'', ''2. Update Title'',
                          ''3. Update Author ID'', ''4. Update Author Name'',
                          ''5. Update Author Country'', ''0. Return To Main Menu'']] w))
       (\<lambda>edit_selection w.
          if edit_selection = 1 then
            andthen (update_quantity book_id current_stock
                       (py_print (Line ''--Updating Stock Quantity'') w))
              (\<lambda>new_quantity w.
                 if truthy new_quantity then
                   (Inr (), py_print (Line (book_title @ '' stock updated. New stock: ''
                                            @ py_repr new_quantity)) w)
                 else
                   (Inr (), py_print (Line (''Error updating '' @ book_title
                                            @ '' stock, please contact system admin'')) w))
          else if edit_selection = 2 then
            update_title score book_id book_title (py_print (Line ''--Updating Title'') w)
          else if edit_selection = 3 then
            update_author_id score book_id author_id author_name author_country
              (py_print (Line ''--Updating Author ID--'') w)
          else if edit_selection = 4 then
            update_author_name author_id author_name
              (py_print (Line ''--Updating Author Name--'') w)
          else if edit_selection = 5 then
            update_author_country author_id author_country
              (py_print (Line ''--Updating Author Country'') w)
          else (Inr (), w))))"

section \<open>Deleting a book\<close>

definition delete_book :: "world \<Rightarrow> unit run" where
  "delete_book w =
     andthen (get_existing_id ''book'' w) (\<lambda>target_id w.
     andthen (first_row (retrieve_sqlite_query (select_book_joined target_id) [target_id] w))
       (\<lambda>(book_id, title, author_id, author_name, author_country, qty) w.
     andthen (get_yes_no
                (py_prints
                   [Line ''Book to be deleted:'',
                    BookCard book_id title author_name author_id author_country qty] w))
       (\<lambda>confirm_delete w.
          if \<not> confirm_delete then (Inr (), py_print (Line ''Book delete aborted'') w)
          else
            andthen (update_creates_orphan author_id w) (\<lambda>delete_creates_orphan w.
            andthen (if delete_creates_orphan then
                       get_yes_no
                         (py_print
                            (Line (''Deleting this book will also remove Author '' @ author_name
                                   @ '' from '' @ author_country @ '' with ID: ''
                                   @ py_str author_id @ '' from database'')) w)
                     else (Inr True, w))
              (\<lambda>continue_deleting w.
                 if \<not> continue_deleting then (Inr (), py_print (Line ''Book delete aborted'') w)
                 else
                   andthen (execute_sqlite_query (DeleteBook book_id)
                              (py_print (Line ''Deleting Selected book'') w))
                     (\<lambda>delete_successful w.
                        if delete_successful then
                          if delete_creates_orphan then
                            andthen (execute_sqlite_query (DeleteAuthor author_id) w)
                              (\<lambda>orphan_deleted w.
                                 if orphan_deleted then
                                   (Inr (), py_print
                                      (Line (''Book '' @ title @ '' successfully deleted. Author ''
                                             @ author_name @ '' from '' @ author_country
                                             @ '' successfully deleted'')) w)
                                 else
                                   (Inr (), py_print
                                      (Line (''Book '' @ title
                                             @ '' Deleted, orphan Author entry created. Please contact system Admin''))
                                      w))
                          else
                            (Inr (), py_print (Line (''Book '' @ title @ '' succesfully deleted'')) w)
                        else
                          (Inr (), py_print (Line (''Error Deleting book '' @ title
                                                   @ '', please contact system Admin'')) w)))))))"

section \<open>Searching, and the main menu\<close>

definition search_by_id :: "world \<Rightarrow> unit run" where
  "search_by_id w =
     andthen (get_existing_id ''book'' w) (\<lambda>target_id w.
     andthen (first_row (retrieve_sqlite_query (select_book_joined target_id) [target_id] w))
       (\<lambda>(book_id, title, author_id, author_name, author_country, qty) w.
          (Inr (), py_prints
                     [Line ''-Results-'',
                      BookCard book_id title author_name author_id author_country qty] w)))"

definition search_by_title :: "scorer \<Rightarrow> world \<Rightarrow> unit run" where
  "search_by_title score w =
     andthen (get_valid_string w) (\<lambda>query_title w.
     andthen (retrieve_similar_titles score query_title [] w) (\<lambda>search_results w.
       if search_results \<noteq> [] then
         (Inr (), py_prints
                    (Line ''-Best Results-''
                     # map (\<lambda>(title, author_name, author_country, author_id, book_id, qty).
                              BookCard book_id title author_name author_id author_country qty)
                           search_results) w)
       else (Inr (), py_print (Line (''No results for query '' @ query_title @ '' found'')) w)))"

definition search_book :: "scorer \<Rightarrow> world \<Rightarrow> unit run" where
  "search_book score w =
     andthen (get_valid_option_input (py_range 3)
                (py_print (Menu [''--Search Options--'', ''1. Search by ID'',
                                 ''2. Search by title'', ''0. Return to main menu'']) w))
       (\<lambda>search_option w.
          if search_option = 1 then search_by_id (py_print (Line ''--Searching by ID'') w)
          else if search_option = 2 then
            search_by_title score (py_print (Line ''--Searching by Title'') w)
          else (Inr (), w))"

text \<open>One pass of the main loop; \<open>False\<close> is the \<^verbatim>\<open>break\<close> of option 0.\<close>

definition menu_step :: "scorer \<Rightarrow> world \<Rightarrow> bool run" where
  "menu_step score w =
     andthen (get_valid_option_input (py_range 6)
                (py_print (Menu [''--Welcome to BookShelf Database Manager---'',
                                 ''Select an Option Below:'', ''1. Enter Book'', ''2. Update Book'',
                                 ''3. Delete Book'', ''4. Search Book'',
                                 ''5. View Details of All Books'', ''0. Exit'']) w))
       (\<lambda>menu_selection w.
          if menu_selection = 1 then
            andthen (add_book score (py_print (Line ''---ENTERING NEW BOOK---'') w))
              (\<lambda>u w. (Inr True, w))
          else if menu_selection = 2 then
            andthen (update_book score (py_print (Line ''---UPDATING BOOK---'') w))
              (\<lambda>u w. (Inr True, w))
          else if menu_selection = 3 then
            andthen (delete_book (py_print (Line ''---DELETE BOOK---'') w)) (\<lambda>u w. (Inr True, w))
          else if menu_selection = 4 then
            andthen (search_book score (py_print (Line ''---SEARCH---'') w))
              (\<lambda>u w. (Inr True, w))
          else if menu_selection = 5 then
            andthen (view_all_books (py_print (Line ''---VIEWING ALL BOOKS---'') w))
              (\<lambda>u w. (Inr True, w))
          else if menu_selection = 0 then (Inr False, w)
          else (Inr True, w))"

text \<open>The first \<open>n\<close> passes of \<^verbatim>\<open>while True\<close>: \<open>True\<close> when the loop is still running after
  them, \<open>False\<close> when it was left through option 0.\<close>

fun menu_loop :: "nat \<Rightarrow> scorer \<Rightarrow> world \<Rightarrow> bool run" where
  "menu_loop 0 score w = (Inr True, w)"
| "menu_loop (Suc n) score w =
     andthen (menu_step score w) (\<lambda>running w.
       if running then menu_loop n score w else (Inr False, w))"

section \<open>Reasoning about runs\<close>

text \<open>
  A step is quiet when it leaves both tables and the log of statements as they are and
  uses up store-error flags at most: the prompts and the queries are quiet. The store
  works when no error is scheduled.
\<close>

definition quiet :: "world \<Rightarrow> world \<Rightarrow> bool" where
  "quiet w w' \<longleftrightarrow> book_tab w' = book_tab w \<and> author_tab w' = author_tab w \<and> calls w' = calls w
     \<and> set (faults w') \<subseteq> set (faults w)"

definition no_faults :: "world \<Rightarrow> bool" where
  "no_faults w \<longleftrightarrow> True \<notin> set (faults w)"

lemma py_print_fields [simp]:
  "book_tab (py_print m w) = book_tab w" "author_tab (py_print m w) = author_tab w"
  "stdin (py_print m w) = stdin w" "faults (py_print m w) = faults w"
  "calls (py_print m w) = calls w" "stdout (py_print m w) = stdout w @ [m]"
  by (simp_all add: py_print_def)

lemma py_prints_fields [simp]:
  "book_tab (py_prints ms w) = book_tab w" "author_tab (py_prints ms w) = author_tab w"
  "stdin (py_prints ms w) = stdin w" "faults (py_prints ms w) = faults w"
  "calls (py_prints ms w) = calls w" "stdout (py_prints ms w) = stdout w @ ms"
  by (simp_all add: py_prints_def)

lemma andthen_simps [simp]:
  "andthen (Inl e, w) f = (Inl e, w)" "andthen (Inr x, w) f = f x w"
  by (simp_all add: andthen_def)

lemma andthen_InrE:
  assumes "andthen m f = (Inr r, w')"
  obtains x w1 where "m = (Inr x, w1)" and "f x w1 = (Inr r, w')"
  using assms by (cases m) (auto simp: andthen_def split: sum.splits)

lemma andthen_cases:
  assumes "andthen m f = (r, w')"
  obtains (raised) e where "m = (Inl e, w')" and "r = Inl e"
        | (went_on) x w1 where "m = (Inr x, w1)" and "f x w1 = (r, w')"
  using assms by (cases m) (auto simp: andthen_def split: sum.splits)

lemma quiet_refl [simp]: "quiet w w"
  by (simp add: quiet_def)

lemma quiet_trans: "quiet w w1 \<Longrightarrow> quiet w1 w2 \<Longrightarrow> quiet w w2"
  by (auto simp: quiet_def)

lemma quiet_print [simp]:
  "quiet w (py_print m w') = quiet w w'" "quiet (py_print m w) w' = quiet w w'"
  "quiet w (py_prints ms w') = quiet w w'" "quiet (py_prints ms w) w' = quiet w w'"
  by (simp_all add: quiet_def)

lemma quiet_no_faults: "quiet w w' \<Longrightarrow> no_faults w \<Longrightarrow> no_faults w'"
  by (auto simp: quiet_def no_faults_def)

lemma py_input_quiet: "py_input w = (r, w') \<Longrightarrow> quiet w w'"
  by (auto simp: py_input_def quiet_def split: list.splits)

lemma next_fault_quiet: "next_fault w = (f, w') \<Longrightarrow> quiet w w'"
  by (auto simp: next_fault_def quiet_def split: list.splits)

lemma next_fault_no_faults: "no_faults w \<Longrightarrow> next_fault w = (f, w') \<Longrightarrow> \<not> f"
  by (auto simp: next_fault_def no_faults_def split: list.splits)

lemma retrieve_quiet: "retrieve_sqlite_query q ps w = (r, w') \<Longrightarrow> quiet w w'"
  by (auto simp: retrieve_sqlite_query_def split: prod.splits if_splits dest: next_fault_quiet)

lemma retrieve_Inl:
  "retrieve_sqlite_query q ps w = (Inl e, w') \<Longrightarrow> e = OverflowError \<and> \<not> list_all fits_int64 ps"
  by (auto simp: retrieve_sqlite_query_def split: prod.splits if_splits)

lemma quiet_stdin [simp]:
  "quiet w (w'\<lparr>stdin := ls\<rparr>) = quiet w w'" "quiet (w\<lparr>stdin := ls\<rparr>) w' = quiet w w'"
  by (simp_all add: quiet_def)

lemma get_valid_option_input_quiet:
  "get_valid_option_input valid_range w = (r, w') \<Longrightarrow> quiet w w'"
proof (induction valid_range w rule: get_valid_option_input.induct)
  case (1 valid_range w)
  from "1.prems" "1.IH" show ?case
    by (subst (asm) get_valid_option_input.simps)
       (auto simp: py_input_def split: list.splits option.splits if_splits)
qed

lemma get_valid_option_input_range:
  "get_valid_option_input valid_range w = (Inr n, w') \<Longrightarrow> n \<in> set valid_range"
proof (induction valid_range w rule: get_valid_option_input.induct)
  case (1 valid_range w)
  from "1.prems" "1.IH" show ?case
    by (subst (asm) get_valid_option_input.simps)
       (auto simp: py_input_def split: list.splits option.splits if_splits)
qed

lemma get_yes_no_quiet: "get_yes_no w = (r, w') \<Longrightarrow> quiet w w'"
proof (induction w rule: get_yes_no.induct)
  case (1 w)
  from "1.prems" "1.IH" show ?case
    by (subst (asm) get_yes_no.simps)
       (auto simp: py_input_def Let_def split: list.splits option.splits if_splits)
qed

lemma get_valid_string_quiet: "get_valid_string w = (r, w') \<Longrightarrow> quiet w w'"
proof (induction w rule: get_valid_string.induct)
  case (1 w)
  from "1.prems" "1.IH" show ?case
    by (subst (asm) get_valid_string.simps)
       (auto simp: py_input_def split: list.splits option.splits if_splits)
qed

lemma get_valid_integer_quiet: "get_valid_integer w = (r, w') \<Longrightarrow> quiet w w'"
proof (induction w arbitrary: r w' rule: get_valid_integer.induct)
  case (1 w)
  from "1.prems" "1.IH" show ?case
    by (subst (asm) get_valid_integer.simps)
       (auto simp: py_input_def split: list.splits option.splits if_splits prod.splits sum.splits)
qed

lemma check_id_exists_quiet: "check_id_exists table i w = (r, w') \<Longrightarrow> quiet w w'"
  by (auto simp: check_id_exists_def split: if_splits option.splits
      elim!: andthen_cases dest: retrieve_quiet)

lemma stdin_check: "check_id_exists table i w = (x, w2) \<Longrightarrow> stdin w2 = stdin w"
  by (metis stdin_check_id_exists snd_conv)

lemma get_valid_id_quiet_aux:
  "stdin w = ls \<Longrightarrow> get_valid_id table w = (r, w') \<Longrightarrow> quiet w w'"
proof (induction ls arbitrary: w)
  case Nil
  then show ?case
    by (subst (asm) get_valid_id.simps) (simp add: py_input_def)
next
  case (Cons l ls)
  have step: "\<And>m w1. stdin w1 = ls \<Longrightarrow> quiet w w1 \<Longrightarrow>
      get_valid_id table (py_print m w1) = (r, w') \<Longrightarrow> quiet w w'"
    using Cons.IH [of "py_print m w1" for m w1] by (fastforce intro: quiet_trans)
  from Cons.prems show ?case
    apply (subst (asm) get_valid_id.simps)
    apply (simp add: py_input_def split: option.splits if_splits prod.splits sum.splits)
    apply (auto dest!: step [rotated 2])
    apply (auto dest: check_id_exists_quiet stdin_check)
    done
qed

lemma get_valid_id_quiet: "get_valid_id table w = (r, w') \<Longrightarrow> quiet w w'"
  by (rule get_valid_id_quiet_aux [OF refl])

lemma get_existing_id_quiet_aux:
  "stdin w = ls \<Longrightarrow> get_existing_id table w = (r, w') \<Longrightarrow> quiet w w'"
proof (induction ls arbitrary: w)
  case Nil
  then show ?case
    by (subst (asm) get_existing_id.simps) (simp add: py_input_def)
next
  case (Cons l ls)
  have step: "\<And>m w1. stdin w1 = ls \<Longrightarrow> quiet w w1 \<Longrightarrow>
      get_existing_id table (py_print m w1) = (r, w') \<Longrightarrow> quiet w w'"
    using Cons.IH [of "py_print m w1" for m w1] by (fastforce intro: quiet_trans)
  from Cons.prems show ?case
    apply (subst (asm) get_existing_id.simps)
    apply (simp add: py_input_def split: option.splits if_splits prod.splits sum.splits)
    apply (auto dest!: step [rotated 2])
    apply (auto dest: check_id_exists_quiet stdin_check)
    done
qed

lemma get_existing_id_quiet: "get_existing_id table w = (r, w') \<Longrightarrow> quiet w w'"
  by (rule get_existing_id_quiet_aux [OF refl])

text \<open>What \<^verbatim>\<open>check_id_exists\<close> answers.\<close>

definition book_ids :: "world \<Rightarrow> int set" where
  "book_ids w = b_id ` set (book_tab w)"

definition author_ids :: "world \<Rightarrow> int set" where
  "author_ids w = a_id ` set (author_tab w)"

lemma ids_print [simp]:
  "book_ids (py_print m w) = book_ids w" "author_ids (py_print m w) = author_ids w"
  "book_ids (py_prints ms w) = book_ids w" "author_ids (py_prints ms w) = author_ids w"
  "book_ids (w\<lparr>stdin := ls\<rparr>) = book_ids w" "author_ids (w\<lparr>stdin := ls\<rparr>) = author_ids w"
  by (simp_all add: book_ids_def author_ids_def)

lemma no_faults_print [simp]:
  "no_faults (py_print m w) = no_faults w" "no_faults (py_prints ms w) = no_faults w"
  "no_faults (w\<lparr>stdin := ls\<rparr>) = no_faults w"
  by (simp_all add: no_faults_def)

lemma quiet_book_ids: "quiet w w' \<Longrightarrow> book_ids w' = book_ids w"
  by (simp add: quiet_def book_ids_def)

lemma quiet_author_ids: "quiet w w' \<Longrightarrow> author_ids w' = author_ids w"
  by (simp add: quiet_def author_ids_def)

lemma filter_nonempty_iff: "filter P xs \<noteq> [] \<longleftrightarrow> (\<exists>x \<in> set xs. P x)"
  by (simp add: filter_empty_conv)

lemma next_fault_tables:
  "next_fault w = (f, w') \<Longrightarrow> book_tab w' = book_tab w \<and> author_tab w' = author_tab w"
  by (auto simp: next_fault_def split: list.splits)

lemma check_id_exists_book:
  "check_id_exists ''book'' i w = (Inr r, w') \<Longrightarrow>
     (r = Some True \<longrightarrow> i \<in> book_ids w) \<and> (no_faults w \<longrightarrow> i \<in> book_ids w \<longrightarrow> r = Some True)"
  by (auto simp: check_id_exists_def retrieve_sqlite_query_def select_book_by_id_def
      book_ids_def filter_nonempty_iff next_fault_def no_faults_def
      split: prod.splits if_splits list.splits)

lemma check_id_exists_author:
  "check_id_exists ''author'' i w = (Inr r, w') \<Longrightarrow>
     (r = Some True \<longrightarrow> i \<in> author_ids w) \<and> (no_faults w \<longrightarrow> i \<in> author_ids w \<longrightarrow> r = Some True)"
  by (auto simp: check_id_exists_def retrieve_sqlite_query_def select_author_by_id_def
      author_ids_def filter_nonempty_iff next_fault_def no_faults_def
      split: prod.splits if_splits list.splits)

lemma get_existing_id_book_aux:
  "stdin w = ls \<Longrightarrow> get_existing_id ''book'' w = (Inr i, w') \<Longrightarrow> i \<in> book_ids w"
proof (induction ls arbitrary: w)
  case Nil
  then show ?case
    by (subst (asm) get_existing_id.simps) (simp add: py_input_def)
next
  case (Cons l ls)
  have step: "\<And>m w1. stdin w1 = ls \<Longrightarrow> quiet w w1 \<Longrightarrow>
      get_existing_id ''book'' (py_print m w1) = (Inr i, w') \<Longrightarrow> i \<in> book_ids w"
    using Cons.IH [of "py_print m w1" for m w1] by (auto dest: quiet_book_ids)
  from Cons.prems show ?case
    apply (subst (asm) get_existing_id.simps)
    apply (simp add: py_input_def split: option.splits if_splits prod.splits sum.splits)
    apply (auto dest!: step [rotated 2])
    apply (auto dest: check_id_exists_quiet stdin_check check_id_exists_book)
    done
qed

lemma get_existing_id_author_aux:
  "stdin w = ls \<Longrightarrow> get_existing_id ''author'' w = (Inr i, w') \<Longrightarrow> i \<in> author_ids w"
proof (induction ls arbitrary: w)
  case Nil
  then show ?case
    by (subst (asm) get_existing_id.simps) (simp add: py_input_def)
next
  case (Cons l ls)
  have step: "\<And>m w1. stdin w1 = ls \<Longrightarrow> quiet w w1 \<Longrightarrow>
      get_existing_id ''author'' (py_print m w1) = (Inr i, w') \<Longrightarrow> i \<in> author_ids w"
    using Cons.IH [of "py_print m w1" for m w1] by (auto dest: quiet_author_ids)
  from Cons.prems show ?case
    apply (subst (asm) get_existing_id.simps)
    apply (simp add: py_input_def split: option.splits if_splits prod.splits sum.splits)
    apply (auto dest!: step [rotated 2])
    apply (auto dest: check_id_exists_quiet stdin_check check_id_exists_author)
    done
qed

lemma get_valid_id_book_aux:
  "stdin w = ls \<Longrightarrow> no_faults w \<Longrightarrow> get_valid_id ''book'' w = (Inr i, w') \<Longrightarrow> i \<notin> book_ids w"
proof (induction ls arbitrary: w)
  case Nil
  then show ?case
    by (subst (asm) get_valid_id.simps) (simp add: py_input_def)
next
  case (Cons l ls)
  have step: "i \<notin> book_ids w"
    if a: "stdin w1 = ls" "quiet w w1" "get_valid_id ''book'' (py_print m w1) = (Inr i, w')"
    for m w1
  proof -
    have "no_faults (py_print m w1)"
      using quiet_no_faults [OF a(2) Cons.prems(2)] by simp
    with Cons.IH [of "py_print m w1"] a have "i \<notin> book_ids (py_print m w1)" by simp
    then show ?thesis using quiet_book_ids [OF a(2)] by simp
  qed
  have nf: "no_faults (w\<lparr>stdin := ls\<rparr>)" using Cons.prems(2) by simp
  from Cons.prems(1,3) show ?case
    apply (subst (asm) get_valid_id.simps)
    apply (simp add: py_input_def split: option.splits if_splits prod.splits sum.splits)
    apply (auto dest!: step [rotated 2])
    apply (auto dest: check_id_exists_quiet stdin_check)
    using nf apply (auto dest!: check_id_exists_book)
    done
qed

lemma get_valid_id_author_aux:
  "stdin w = ls \<Longrightarrow> no_faults w \<Longrightarrow> get_valid_id ''author'' w = (Inr i, w') \<Longrightarrow> i \<notin> author_ids w"
proof (induction ls arbitrary: w)
  case Nil
  then show ?case
    by (subst (asm) get_valid_id.simps) (simp add: py_input_def)
next
  case (Cons l ls)
  have step: "i \<notin> author_ids w"
    if a: "stdin w1 = ls" "quiet w w1" "get_valid_id ''author'' (py_print m w1) = (Inr i, w')"
    for m w1
  proof -
    have "no_faults (py_print m w1)"
      using quiet_no_faults [OF a(2) Cons.prems(2)] by simp
    with Cons.IH [of "py_print m w1"] a have "i \<notin> author_ids (py_print m w1)" by simp
    then show ?thesis using quiet_author_ids [OF a(2)] by simp
  qed
  have nf: "no_faults (w\<lparr>stdin := ls\<rparr>)" using Cons.prems(2) by simp
  from Cons.prems(1,3) show ?case
    apply (subst (asm) get_valid_id.simps)
    apply (simp add: py_input_def split: option.splits if_splits prod.splits sum.splits)
    apply (auto dest!: step [rotated 2])
    apply (auto dest: check_id_exists_quiet stdin_check)
    using nf apply (auto dest!: check_id_exists_author)
    done
qed

lemmas get_existing_id_book = get_existing_id_book_aux [OF refl]
lemmas get_existing_id_author = get_existing_id_author_aux [OF refl]
lemmas get_valid_id_book = get_valid_id_book_aux [OF refl]
lemmas get_valid_id_author = get_valid_id_author_aux [OF refl]

subsection \<open>Lists of rows\<close>

lemma map_if_member:
  "x \<in> set (map (\<lambda>b. if k b = i then f b else b) xs) \<Longrightarrow>
     (\<exists>y \<in> set xs. k y = i \<and> x = f y) \<or> (x \<in> set xs \<and> k x \<noteq> i)"
  by (induction xs) (auto split: if_splits)

lemma map_if_hit:
  "y \<in> set xs \<Longrightarrow> k y = i \<Longrightarrow> f y \<in> set (map (\<lambda>b. if k b = i then f b else b) xs)"
  by (induction xs) (auto split: if_splits)

lemma map_if_keys:
  "(\<And>b. k (f b) = k b) \<Longrightarrow> map k (map (\<lambda>b. if k b = i then f b else b) xs) = map k xs"
  by (induction xs) auto

subsection \<open>The store\<close>

lemma execute_True:
  assumes "execute_sqlite_query s w = (Inr True, w')"
  shows "\<exists>w2. apply_stmt s w = Some w2 \<and> book_tab w' = book_tab w2
           \<and> author_tab w' = author_tab w2 \<and> calls w' = calls w @ [(s, True)]
           \<and> set (faults w') \<subseteq> set (faults w) \<and> fits_sqlite s"
  using assms
  by (cases s)
     (auto simp: execute_sqlite_query_def next_fault_def py_print_def
       split: list.splits if_splits option.splits dest: set_mp)

lemma execute_False:
  assumes "execute_sqlite_query s w = (Inr False, w')"
  shows "book_tab w' = book_tab w \<and> author_tab w' = author_tab w
           \<and> calls w' = calls w @ [(s, False)] \<and> set (faults w') \<subseteq> set (faults w)
           \<and> (no_faults w \<longrightarrow> apply_stmt s w = None)"
  using assms
  by (cases s)
     (auto simp: execute_sqlite_query_def next_fault_def py_print_def no_faults_def
       split: list.splits if_splits option.splits)

lemma execute_Inl:
  assumes "execute_sqlite_query s w = (Inl e, w')"
  shows "e = OverflowError \<and> quiet w w' \<and> \<not> fits_sqlite s"
  using assms
  by (auto simp: execute_sqlite_query_def next_fault_def quiet_def
       split: list.splits if_splits option.splits)

lemma first_row_Inr:
  "first_row (retrieve_sqlite_query q ps w) = (Inr r, w') \<Longrightarrow>
     quiet w w' \<and> (\<exists>rs. q w' = r # rs)"
  by (auto simp: first_row_def retrieve_sqlite_query_def
      split: prod.splits if_splits list.splits option.splits dest: next_fault_quiet)

lemma select_book_joined_row:
  "(bid, t, aid, an, ac, q) \<in> set (select_book_joined i w) \<Longrightarrow>
     bid = i \<and> (\<exists>b \<in> set (book_tab w). \<exists>a \<in> set (author_tab w).
        b_id b = bid \<and> b_title b = t \<and> b_qty b = q \<and> b_authorID b = aid
        \<and> a_id a = aid \<and> a_name a = an \<and> a_country a = ac)"
  by (auto simp: select_book_joined_def joined_def)

text \<open>Whether the next call of the store fails, and the books that reference an author.\<close>

definition store_fails :: "world \<Rightarrow> bool" where
  "store_fails w = (case faults w of [] \<Rightarrow> False | f # fs \<Rightarrow> f)"

definition books_of :: "int \<Rightarrow> world \<Rightarrow> book list" where
  "books_of a w = filter (\<lambda>b. b_authorID b = a) (book_tab w)"

lemma updated_qty:
  "x \<in> set (map (\<lambda>b. if b_id b = i then b\<lparr>b_qty := q\<rparr> else b) xs) \<Longrightarrow> b_id x = i
     \<Longrightarrow> b_qty x = q"
  using map_if_member [of x b_id i "\<lambda>b. b\<lparr>b_qty := q\<rparr>" xs]
  by (metis book.select_convs(4) book.surjective book.update_convs(4))

lemma updated_qty_rows:
  assumes "y \<in> set xs" and "b_id y = i"
  shows "b_qty ` {b \<in> set (map (\<lambda>b. if b_id b = i then b\<lparr>b_qty := q\<rparr> else b) xs). b_id b = i} = {q}"
proof
  show "b_qty ` {b \<in> set (map (\<lambda>b. if b_id b = i then b\<lparr>b_qty := q\<rparr> else b) xs). b_id b = i}
      \<subseteq> {q}"
    using updated_qty by blast
  have "y\<lparr>b_qty := q\<rparr> \<in> set (map (\<lambda>b. if b_id b = i then b\<lparr>b_qty := q\<rparr> else b) xs)"
    using map_if_hit [of y xs b_id i "\<lambda>b. b\<lparr>b_qty := q\<rparr>"] assms by blast
  then have mem: "y\<lparr>b_qty := q\<rparr> \<in> set (map (\<lambda>b. if b_id b = i then b\<lparr>b_qty := q\<rparr> else b) xs)" .
  have "b_id (y\<lparr>b_qty := q\<rparr>) = b_id y" by simp
  then have key: "b_id (y\<lparr>b_qty := q\<rparr>) = i" using assms(2) by (rule trans)
  from mem key
  have "y\<lparr>b_qty := q\<rparr> \<in> {b \<in> set (map (\<lambda>b. if b_id b = i then b\<lparr>b_qty := q\<rparr> else b) xs). b_id b = i}"
    by blast
  then have "b_qty (y\<lparr>b_qty := q\<rparr>)
      \<in> b_qty ` {b \<in> set (map (\<lambda>b. if b_id b = i then b\<lparr>b_qty := q\<rparr> else b) xs). b_id b = i}"
    by (rule imageI)
  moreover have "b_qty (y\<lparr>b_qty := q\<rparr>) = q" by simp
  ultimately show "{q} \<subseteq> b_qty ` {b \<in> set (map (\<lambda>b. if b_id b = i then b\<lparr>b_qty := q\<rparr> else b) xs).
      b_id b = i}"
    by (simp only: insert_subset empty_subsetI simp_thms)
qed

section \<open>The orphan check\<close>

text \<open>
  C3, as the specification states it: \<^verbatim>\<open>update_creates_orphan\<close> is true exactly when one book
  references the author, and not true when none does. The code compares the number of
  referencing books with 2, so it is also true for an author of the author table that no
  book references: here author 1290 and an empty book table.
\<close>

theorem update_creates_orphan_zero_books:
  "fst (update_creates_orphan 1290 (session [] initial_authors [] [])) = Inr True
   \<and> books_of 1290 (session [] initial_authors [] []) = []
   \<and> 1290 \<in> author_ids (session [] initial_authors [] [])"
  by code_simp

text \<open>
  C3, as the code has it: for an author id that SQLite can bind, a 64-bit integer, and a
  query that the store answers, \<^verbatim>\<open>update_creates_orphan\<close> returns whether fewer than two books
  reference the author: true for none or one, false for two or more. Whatever the id and
  the store, neither table changes and no statement is executed.
\<close>

theorem update_creates_orphan_fewer_than_two:
  "(fits_int64 a \<and> \<not> store_fails w \<longrightarrow>
      fst (update_creates_orphan a w) = Inr (length (books_of a w) < 2))
   \<and> book_tab (snd (update_creates_orphan a w)) = book_tab w
   \<and> author_tab (snd (update_creates_orphan a w)) = author_tab w
   \<and> calls (snd (update_creates_orphan a w)) = calls w"
  by (auto simp: update_creates_orphan_def retrieve_sqlite_query_def next_fault_def store_fails_def
      books_of_def select_ids_by_author_def split: list.splits)

theorem update_creates_orphan_fewer_than_two_witness:
  "fits_int64 1290 \<and> \<not> store_fails (session initial_books initial_authors [] [])
   \<and> fst (update_creates_orphan 1290 (session initial_books initial_authors [] [])) = Inr True
   \<and> length (books_of 1290 (session initial_books initial_authors [] [])) = 1"
  using update_creates_orphan_fewer_than_two [of 1290 "session initial_books initial_authors [] []"]
  by (simp add: store_fails_def session_def books_of_def initial_books_def fits_int64_def)

section \<open>Updating the stock\<close>

text \<open>
  C10: in the stock branch of \<^verbatim>\<open>update_book\<close>, \<^verbatim>\<open>update_quantity\<close> returns the new quantity
  when the store reported success and \<^verbatim>\<open>False\<close> when it did not. For the quantity 0 a
  successful update therefore returns a value that \<^verbatim>\<open>if new_quantity\<close> takes for false:
  \<^verbatim>\<open>update_book\<close> prints the error line although every row with the book's id now has
  quantity 0.
\<close>

theorem update_quantity_zero_reported_as_error:
  assumes fetched: "get_existing_id ''book'' w = (Inr target_id, w1)"
    and row: "first_row (retrieve_sqlite_query (select_book_joined target_id) [target_id] w1)
        = (Inr (book_id, book_title, author_id, author_name, author_country, current_stock), w2)"
    and chosen: "get_valid_option_input (py_range 6)
        (py_prints
           [Line ''Selected Book:'',
            BookCard book_id book_title author_name author_id author_country current_stock,
            Menu [''--Options--'', ''1. Update Stock Quantity'', ''2. Update Title'',
                  ''3. Update Author ID'', ''4. Update Author Name'',
                  ''5. Update Author Country'', ''0. Return To Main Menu'']] w2) = (Inr 1, w3)"
    and typed: "get_valid_integer
        (py_print (Line (''Current stock is: '' @ py_repr (py_opt current_stock)))
           (py_print (Line ''--Updating Stock Quantity'') w3)) = (Inr new_quant, w4)"
    and stored: "execute_sqlite_query (UpdateQty new_quant book_id) w4 = (Inr quant_updated, w5)"
  shows "update_quantity book_id current_stock (py_print (Line ''--Updating Stock Quantity'') w3)
           = (Inr (if quant_updated then py_opt new_quant else PyBool False), w5)
         \<and> (new_quant = Some 0 \<and> quant_updated \<longrightarrow>
              \<not> truthy (py_opt new_quant)
              \<and> update_book score w
                  = (Inr (), py_print (Line (''Error updating '' @ book_title
                                             @ '' stock, please contact system admin'')) w5)
              \<and> b_qty ` {b \<in> set (book_tab w5). b_id b = book_id} = {Some 0})"
proof (intro conjI impI)
  show uq: "update_quantity book_id current_stock (py_print (Line ''--Updating Stock Quantity'') w3)
           = (Inr (if quant_updated then py_opt new_quant else PyBool False), w5)"
    unfolding update_quantity_def
    by (simp only: typed stored andthen_simps if_True if_False split: if_splits) simp
next
  assume z: "new_quant = Some 0 \<and> quant_updated"
  then show "\<not> truthy (py_opt new_quant)" by (simp add: py_opt_def)
  from z typed stored have typed0: "get_valid_integer
        (py_print (Line (''Current stock is: '' @ py_repr (py_opt current_stock)))
           (py_print (Line ''--Updating Stock Quantity'') w3)) = (Inr (Some 0), w4)"
    and stored0: "execute_sqlite_query (UpdateQty (Some 0) book_id) w4 = (Inr True, w5)"
    by simp_all
  show "update_book score w
        = (Inr (), py_print (Line (''Error updating '' @ book_title
                                   @ '' stock, please contact system admin'')) w5)"
    unfolding update_book_def update_quantity_def
    apply (simp only: fetched row chosen typed0 stored0 andthen_simps prod.case if_True if_False
        refl simp_thms)
    apply (simp add: py_opt_def)
    done
  from execute_True [OF stored0]
  have tab: "book_tab w5
      = map (\<lambda>b. if b_id b = book_id then b\<lparr>b_qty := Some 0\<rparr> else b) (book_tab w4)"
    by auto
  from first_row_Inr [OF row] obtain rs where
    "select_book_joined target_id w2
       = (book_id, book_title, author_id, author_name, author_country, current_stock) # rs"
    by blast
  then have "(book_id, book_title, author_id, author_name, author_country, current_stock)
      \<in> set (select_book_joined target_id w2)"
    by simp
  from select_book_joined_row [OF this] obtain b0 where "b0 \<in> set (book_tab w2)" "b_id b0 = book_id"
    by blast
  moreover have "book_tab w4 = book_tab w2"
    using get_valid_option_input_quiet [OF chosen] get_valid_integer_quiet [OF typed]
    by (simp add: quiet_def)
  ultimately have "b0 \<in> set (book_tab w4)" "b_id b0 = book_id" by simp_all
  from updated_qty_rows [OF this, of "Some 0"]
  show "b_qty ` {b \<in> set (book_tab w5). b_id b = book_id} = {Some 0}"
    unfolding tab .
qed

theorem update_quantity_zero_reported_as_error_witness:
  "update_book (\<lambda>q c. 0)
     (session [\<lparr>b_id = 3001, b_title = ''T'', b_authorID = 1290, b_qty = Some 5\<rparr>]
        [\<lparr>a_id = 1290, a_name = ''N'', a_country = ''C''\<rparr>] [''3001'', ''1'', ''0''] [])
   = (Inr (),
      \<lparr>book_tab = [\<lparr>b_id = 3001, b_title = ''T'', b_authorID = 1290, b_qty = Some 0\<rparr>],
       author_tab = [\<lparr>a_id = 1290, a_name = ''N'', a_country = ''C''\<rparr>],
       stdin = [], faults = [],
       stdout = [Line ''Selected Book:'', BookCard 3001 ''T'' ''N'' 1290 ''C'' (Some 5),
                 Menu [''--Options--'', ''1. Update Stock Quantity'', ''2. Update Title'',
                       ''3. Update Author ID'', ''4. Update Author Name'',
                       ''5. Update Author Country'', ''0. Return To Main Menu''],
                 Line ''--Updating Stock Quantity'', Line ''Current stock is: 5'',
                 Line ''Error updating T stock, please contact system admin''],
       calls = [(UpdateQty (Some 0) 3001, True)]\<rparr>)"
proof -
  define bs where "bs = [\<lparr>b_id = 3001, b_title = ''T'', b_authorID = 1290, b_qty = Some 5\<rparr>]"
  define as where "as = [\<lparr>a_id = 1290, a_name = ''N'', a_country = ''C''\<rparr>]"
  define out where "out = [Line ''Selected Book:'', BookCard 3001 ''T'' ''N'' 1290 ''C'' (Some 5),
                 Menu [''--Options--'', ''1. Update Stock Quantity'', ''2. Update Title'',
                       ''3. Update Author ID'', ''4. Update Author Name'',
                       ''5. Update Author Country'', ''0. Return To Main Menu'']]"
  define w1 where "w1 = \<lparr>book_tab = bs, author_tab = as, stdin = [''1'', ''0''], faults = [],
      stdout = [], calls = []\<rparr>"
  define w3 where "w3 = \<lparr>book_tab = bs, author_tab = as, stdin = [''0''], faults = [],
      stdout = out, calls = []\<rparr>"
  define w4 where "w4 = \<lparr>book_tab = bs, author_tab = as, stdin = [], faults = [],
      stdout = out @ [Line ''--Updating Stock Quantity'', Line ''Current stock is: 5''], calls = []\<rparr>"
  define w5 where "w5 = \<lparr>book_tab = [\<lparr>b_id = 3001, b_title = ''T'', b_authorID = 1290, b_qty = Some 0\<rparr>],
      author_tab = as, stdin = [], faults = [],
      stdout = out @ [Line ''--Updating Stock Quantity'', Line ''Current stock is: 5''],
      calls = [(UpdateQty (Some 0) 3001, True)]\<rparr>"
  have h1: "get_existing_id ''book'' (session bs as [''3001'', ''1'', ''0''] []) = (Inr 3001, w1)"
    unfolding w1_def bs_def as_def by code_simp
  have h2: "first_row (retrieve_sqlite_query (select_book_joined 3001) [3001] w1)
      = (Inr (3001, ''T'', 1290, ''N'', ''C'', Some 5), w1)"
    unfolding w1_def bs_def as_def by code_simp
  have h3: "get_valid_option_input (py_range 6) (py_prints out w1) = (Inr 1, w3)"
    unfolding w3_def w1_def bs_def as_def out_def by code_simp
  have h4: "get_valid_integer
        (py_print (Line (''Current stock is: '' @ py_repr (py_opt (Some 5))))
           (py_print (Line ''--Updating Stock Quantity'') w3)) = (Inr (Some 0), w4)"
    unfolding w4_def w3_def bs_def as_def out_def by code_simp
  have h5: "execute_sqlite_query (UpdateQty (Some 0) 3001) w4 = (Inr True, w5)"
    unfolding w5_def w4_def bs_def as_def out_def by code_simp
  have "update_book (\<lambda>q c. 0) (session bs as [''3001'', ''1'', ''0''] [])
          = (Inr (), py_print (Line (''Error updating '' @ ''T''
                                     @ '' stock, please contact system admin'')) w5)"
    using update_quantity_zero_reported_as_error [OF h1 h2 h3 [unfolded out_def] h4 h5,
        of "\<lambda>q c. 0"]
    by simp
  then show ?thesis
    unfolding w5_def bs_def as_def out_def py_print_def by simp
qed

section \<open>The similarity search\<close>

text \<open>
  What \<^verbatim>\<open>retrieve_similar_titles\<close> computes from the rows of its query: the rows whose title
  is one of the titles that \<^verbatim>\<open>fuzzy_match.extract\<close> returned with a score of 90 or more.
  The catalogues of the examples: a single book titled Dune, and six books whose titles
  are Dune in six spellings, which the library's default processor (lower case, letters
  and digits only) takes to the same string; \<open>same_letters\<close> is a score for that example.
\<close>

definition similar_book_data ::
  "scorer \<Rightarrow> string \<Rightarrow> string \<Rightarrow> title_row list \<Rightarrow> title_row list" where
  "similar_book_data score title excluded_title book_data =
     concat (map (\<lambda>score_tuple. filter (\<lambda>book. fst book = fst score_tuple) book_data)
                 (filter (\<lambda>score_tuple. snd score_tuple \<ge> 90)
                    (fuzzy_match_extract score title
                       (map fst (filter (\<lambda>book. fst book \<noteq> excluded_title) book_data)))))"

definition dune_books :: "book list" where
  "dune_books = [\<lparr>b_id = 3001, b_title = ''Dune'', b_authorID = 1290, b_qty = Some 3\<rparr>]"

definition dune_authors :: "author list" where
  "dune_authors = [\<lparr>a_id = 1290, a_name = ''Frank Herbert'', a_country = ''USA''\<rparr>]"

definition six_dunes :: "book list" where
  "six_dunes =
     [\<lparr>b_id = 3001, b_title = ''Dune'', b_authorID = 1290, b_qty = Some 1\<rparr>,
      \<lparr>b_id = 3002, b_title = ''dune'', b_authorID = 1290, b_qty = Some 1\<rparr>,
      \<lparr>b_id = 3003, b_title = ''DUNE'', b_authorID = 1290, b_qty = Some 1\<rparr>,
      \<lparr>b_id = 3004, b_title = ''DUne'', b_authorID = 1290, b_qty = Some 1\<rparr>,
      \<lparr>b_id = 3005, b_title = ''DunE'', b_authorID = 1290, b_qty = Some 1\<rparr>,
      \<lparr>b_id = 3006, b_title = ''dUNE'', b_authorID = 1290, b_qty = Some 1\<rparr>]"

definition same_letters :: scorer where
  "same_letters query choice = (if py_lower query = py_lower choice then 100 else 0)"

lemma set_fuzzy_match_extract:
  "set (fuzzy_match_extract score query choices) \<subseteq> (\<lambda>choice. (choice, score query choice)) ` set choices"
  unfolding fuzzy_match_extract_def using set_take_subset [of 5] by fastforce

lemma length_fuzzy_match_extract: "length (fuzzy_match_extract score query choices) \<le> 5"
  by (simp add: fuzzy_match_extract_def)

lemma next_fault_queries:
  "next_fault w = (f, w1) \<Longrightarrow> select_titles_joined w1 = select_titles_joined w
     \<and> select_authors w1 = select_authors w"
  by (auto simp: next_fault_def select_titles_joined_def joined_def select_authors_def
      split: list.splits)

lemma retrieve_similar_titles_value:
  "retrieve_similar_titles score title excluded w =
     (if store_fails w then (Inl TypeError, py_print QueryFailed (snd (next_fault w)))
      else (Inr (similar_book_data score title excluded (select_titles_joined w)),
            snd (next_fault w)))"
  by (auto simp: retrieve_similar_titles_def retrieve_sqlite_query_def store_fails_def
      similar_book_data_def Let_def next_fault_def select_titles_joined_def joined_def
      split: list.splits)

lemma similar_titles_from_extract:
  "r \<in> set (similar_book_data score title excluded book_data) \<Longrightarrow>
     r \<in> set book_data \<and> fst r \<noteq> excluded \<and> 90 \<le> score title (fst r)
     \<and> (fst r, score title (fst r)) \<in> set (fuzzy_match_extract score title
            (map fst (filter (\<lambda>book. fst book \<noteq> excluded) book_data)))"
  using set_fuzzy_match_extract [of score title "map fst (filter (\<lambda>book. fst book \<noteq> excluded) book_data)"]
  by (fastforce simp: similar_book_data_def)

lemma similar_titles_card:
  "card (fst ` set (similar_book_data score title excluded book_data)) \<le> 5"
proof -
  let ?E = "fuzzy_match_extract score title
            (map fst (filter (\<lambda>book. fst book \<noteq> excluded) book_data))"
  have "fst ` set (similar_book_data score title excluded book_data) \<subseteq> fst ` set ?E"
    by (auto simp: similar_book_data_def intro: rev_image_eqI)
  then have "card (fst ` set (similar_book_data score title excluded book_data)) \<le> card (fst ` set ?E)"
    by (intro card_mono) auto
  also have "\<dots> \<le> card (set ?E)" by (rule card_image_le) simp
  also have "\<dots> \<le> length ?E" by (rule card_length)
  also have "\<dots> \<le> 5" by (rule length_fuzzy_match_extract)
  finally show ?thesis .
qed

lemma six_dunes_rows:
  "select_titles_joined (session six_dunes dune_authors [] [])
     = [(''Dune'', ''Frank Herbert'', ''USA'', 1290, 3001, Some 1),
        (''dune'', ''Frank Herbert'', ''USA'', 1290, 3002, Some 1),
        (''DUNE'', ''Frank Herbert'', ''USA'', 1290, 3003, Some 1),
        (''DUne'', ''Frank Herbert'', ''USA'', 1290, 3004, Some 1),
        (''DunE'', ''Frank Herbert'', ''USA'', 1290, 3005, Some 1),
        (''dUNE'', ''Frank Herbert'', ''USA'', 1290, 3006, Some 1)]"
  by code_simp

lemma six_dunes_run:
  "retrieve_similar_titles same_letters ''Dune'' [] (session six_dunes dune_authors [] [])
     = (Inr [(''Dune'', ''Frank Herbert'', ''USA'', 1290, 3001, Some 1),
             (''dune'', ''Frank Herbert'', ''USA'', 1290, 3002, Some 1),
             (''DUNE'', ''Frank Herbert'', ''USA'', 1290, 3003, Some 1),
             (''DUne'', ''Frank Herbert'', ''USA'', 1290, 3004, Some 1),
             (''DunE'', ''Frank Herbert'', ''USA'', 1290, 3005, Some 1)],
        session six_dunes dune_authors [] [])"
  by code_simp

lemma six_dunes_qualify:
  "card {t \<in> fst ` set (select_titles_joined (session six_dunes dune_authors [] [])).
           t \<noteq> [] \<and> 90 \<le> same_letters ''Dune'' t} = 6"
  unfolding six_dunes_rows by code_simp

text \<open>
  C8: whatever the score, the catalogue and the excluded title, no row that
  \<^verbatim>\<open>retrieve_similar_titles\<close> returns has the excluded title, and it returns rows whenever
  the store answers its query (when the store fails, iterating \<^verbatim>\<open>False\<close> raises
  \<^verbatim>\<open>TypeError\<close>). Over a catalogue in which every title is the excluded one, as the
  catalogue of the single title Dune with Dune excluded, the result is the empty list.
\<close>

theorem excluded_title_never_returned:
  "(case fst (retrieve_similar_titles score title excluded_title w) of
      Inr rows \<Rightarrow> \<not> store_fails w \<and> (\<forall>r \<in> set rows. fst r \<noteq> excluded_title)
    | Inl e \<Rightarrow> store_fails w \<and> e = TypeError)
   \<and> (\<not> store_fails w \<and> (\<forall>b \<in> set (book_tab w). b_title b = excluded_title) \<longrightarrow>
        fst (retrieve_similar_titles score title excluded_title w) = Inr [])"
proof (intro conjI impI)
  show "case fst (retrieve_similar_titles score title excluded_title w) of
      Inr rows \<Rightarrow> \<not> store_fails w \<and> (\<forall>r \<in> set rows. fst r \<noteq> excluded_title)
    | Inl e \<Rightarrow> store_fails w \<and> e = TypeError"
    by (auto simp: retrieve_similar_titles_value dest: similar_titles_from_extract)
next
  assume a: "\<not> store_fails w \<and> (\<forall>b \<in> set (book_tab w). b_title b = excluded_title)"
  then have "filter (\<lambda>book. fst book \<noteq> excluded_title) (select_titles_joined w) = []"
    by (auto simp: select_titles_joined_def joined_def filter_empty_conv)
  then have "similar_book_data score title excluded_title (select_titles_joined w) = []"
    by (simp add: similar_book_data_def fuzzy_match_extract_def)
  with a show "fst (retrieve_similar_titles score title excluded_title w) = Inr []"
    by (simp add: retrieve_similar_titles_value)
qed

theorem excluded_title_never_returned_witness:
  "\<not> store_fails (session dune_books dune_authors [] [])
   \<and> map b_title (book_tab (session dune_books dune_authors [] [])) = [''Dune'']
   \<and> map fst (select_titles_joined (session dune_books dune_authors [] [])) = [''Dune'']
   \<and> fst (retrieve_similar_titles (\<lambda>query choice. 100) ''Dune'' ''Dune''
            (session dune_books dune_authors [] []))
       = Inr []"
  using excluded_title_never_returned [where score = "\<lambda>query choice. 100" and title = "''Dune''"
      and excluded_title = "''Dune''" and w = "session dune_books dune_authors [] []"]
  by (simp add: store_fails_def session_def dune_books_def dune_authors_def
      select_titles_joined_def joined_def)

text \<open>
  C7 asks for the rows of every title that scores 90 or more. The program calls
  \<^verbatim>\<open>fuzzy_match.extract\<close> without a limit of its own, so the library keeps the five best
  titles: whenever six or more different titles of the catalogue qualify, other than the
  excluded one, \<^verbatim>\<open>retrieve_similar_titles\<close> leaves out a row that qualifies. For the query
  Dune over the six spellings it returns the rows of five.
\<close>

theorem similar_titles_beyond_five_dropped:
  assumes "retrieve_similar_titles score title excluded_title w = (Inr rows, w')"
    and "6 \<le> card {t \<in> fst ` set (select_titles_joined w). t \<noteq> excluded_title \<and> 90 \<le> score title t}"
  shows "\<exists>r \<in> set (select_titles_joined w).
           fst r \<noteq> excluded_title \<and> 90 \<le> score title (fst r) \<and> r \<notin> set rows"
proof (rule ccontr)
  assume "\<not> ?thesis"
  then have all: "\<And>r. r \<in> set (select_titles_joined w) \<Longrightarrow> fst r \<noteq> excluded_title \<Longrightarrow>
      90 \<le> score title (fst r) \<Longrightarrow> r \<in> set rows"
    by blast
  from assms(1) have rows: "rows = similar_book_data score title excluded_title (select_titles_joined w)"
    by (simp add: retrieve_similar_titles_value split: if_splits)
  have "{t \<in> fst ` set (select_titles_joined w). t \<noteq> excluded_title \<and> 90 \<le> score title t}
      \<subseteq> fst ` set rows"
    using all by auto
  then have "card {t \<in> fst ` set (select_titles_joined w). t \<noteq> excluded_title \<and> 90 \<le> score title t}
      \<le> card (fst ` set rows)"
    by (intro card_mono) auto
  also have "\<dots> \<le> 5" unfolding rows by (rule similar_titles_card)
  finally show False using assms(2) by simp
qed

theorem similar_titles_beyond_five_dropped_witness:
  "retrieve_similar_titles same_letters ''Dune'' [] (session six_dunes dune_authors [] [])
     = (Inr [(''Dune'', ''Frank Herbert'', ''USA'', 1290, 3001, Some 1),
             (''dune'', ''Frank Herbert'', ''USA'', 1290, 3002, Some 1),
             (''DUNE'', ''Frank Herbert'', ''USA'', 1290, 3003, Some 1),
             (''DUne'', ''Frank Herbert'', ''USA'', 1290, 3004, Some 1),
             (''DunE'', ''Frank Herbert'', ''USA'', 1290, 3005, Some 1)],
        session six_dunes dune_authors [] [])
   \<and> (\<exists>r \<in> set (select_titles_joined (session six_dunes dune_authors [] [])).
         fst r \<noteq> [] \<and> 90 \<le> same_letters ''Dune'' (fst r)
         \<and> r \<notin> set [(''Dune'', ''Frank Herbert'', ''USA'', 1290, 3001, Some 1),
             (''dune'', ''Frank Herbert'', ''USA'', 1290, 3002, Some 1),
             (''DUNE'', ''Frank Herbert'', ''USA'', 1290, 3003, Some 1),
             (''DUne'', ''Frank Herbert'', ''USA'', 1290, 3004, Some 1),
             (''DunE'', ''Frank Herbert'', ''USA'', 1290, 3005, Some 1)])"
  using similar_titles_beyond_five_dropped [OF six_dunes_run] six_dunes_qualify six_dunes_run
  by simp

section \<open>Referential integrity\<close>

text \<open>
  I1 of the specification: the author id of every book row is the id of an author row.
  The example is a catalogue of one book, 3001, and its author, 1290.
\<close>

definition referential_integrity :: "world \<Rightarrow> bool" where
  "referential_integrity w \<longleftrightarrow>
     list_all (\<lambda>b. b_authorID b \<in> set (map a_id (author_tab w))) (book_tab w)"

definition one_book :: "book list" where
  "one_book = [\<lparr>b_id = 3001, b_title = ''T'', b_authorID = 1290, b_qty = Some 5\<rparr>]"

definition one_author :: "author list" where
  "one_author = [\<lparr>a_id = 1290, a_name = ''N'', a_country = ''C''\<rparr>]"

definition own_author_left :: world where
  "own_author_left =
     \<lparr>book_tab = one_book, author_tab = [], stdin = [], faults = [],
      stdout =
        [Line ''Selected Book:'', BookCard 3001 ''T'' ''N'' 1290 ''C'' (Some 5),
         Menu [''--Options--'', ''1. Update Stock Quantity'', ''2. Update Title'',
               ''3. Update Author ID'', ''4. Update Author Name'',
               ''5. Update Author Country'', ''0. Return To Main Menu''],
         Line ''--Updating Author ID--'',
         Menu [''--Options--'', ''1. Assign book to existing author'',
               ''2. Assign book to new author'', ''0. Return to main menu''],
         Line ''--Assigning book to existing Author--'',
         Line ''Changing the current book author id will result in the deletion of Author:N from C'',
         Line ''Orphan Author N from C removed from database'',
         Line ''Author ID changed successfully''],
      calls = [(UpdateAuthorID 1290 3001, True), (DeleteAuthor 1290, True)]\<rparr>"

text \<open>
  C2 asks that reassigning a book to an existing author keeps I1, also when the author
  chosen is the book's own. In \<^verbatim>\<open>update_book\<close> the user selects book 3001, option 3 (update
  author id), option 1 (existing author), types 1290, the id of the book's own author,
  and confirms: the orphan check, made before the update, finds one book for author 1290,
  the update writes 1290 again and the author row is deleted. The book then references an
  author that is no longer in the table.
\<close>

lemma own_author_run:
  "update_book score (session one_book one_author [''3001'', ''3'', ''1'', ''1290'', ''y''] [])
     = (Inr (), own_author_left)"
  by code_simp

lemma own_author_before:
  "referential_integrity (session one_book one_author [''3001'', ''3'', ''1'', ''1290'', ''y''] [])"
  by code_simp

lemma own_author_after: "\<not> referential_integrity own_author_left"
  by code_simp

theorem reassign_to_current_author_breaks_reference:
  "referential_integrity (session one_book one_author [''3001'', ''3'', ''1'', ''1290'', ''y''] [])
   \<and> update_book score (session one_book one_author [''3001'', ''3'', ''1'', ''1290'', ''y''] [])
       = (Inr (), own_author_left)
   \<and> \<not> referential_integrity own_author_left
   \<and> map b_authorID (book_tab own_author_left) = [1290]
   \<and> author_tab own_author_left = []"
  using own_author_run own_author_before own_author_after
  by (simp add: own_author_left_def one_book_def)

end
